theory Spec2Isabelle
  imports Main "HOL-Library.Word"
begin

section \<open>Values, exceptions and effects\<close>

type_synonym byte = "8 word"
type_synonym bytes = "byte list"

text \<open>
  What JavaScript can throw here: the \<open>Error\<close> objects the class itself creates
  (\<open>new Error('Payload mismatch')\<close>), the \<open>TypeError\<close> of the runtime (a method called
  on \<open>undefined\<close>, \<open>Buffer.from(undefined)\<close>), and the values thrown by the two
  WebAssembly libraries, which are strings. No thrown value is \<open>null\<close> or
  \<open>undefined\<close>, so reading \<open>e.message\<close> in a handler never throws.
\<close>

datatype exn = Error string | TypeError string | Thrown string

fun message :: "exn \<Rightarrow> string" where
  "message (Error m) = m"
| "message (TypeError m) = m"
| "message (Thrown s) = ''undefined''"
  \<comment> \<open>a thrown string has no \<open>message\<close> property; the template literal prints \<open>undefined\<close>\<close>

text \<open>
  The observable effects of a call: the lines written with \<open>console.log\<close>, and the
  program points that execution reached. The points are the four places the
  properties speak about: the entry of \<open>verifyAddress\<close> (line 65), the \<open>try\<close> block of
  the Base address (line 74), the \<open>try\<close> block of the Reward address (line 97) and the
  call of \<open>publicKeyCose.verify\<close> (line 57).
\<close>

datatype point = AddressCheck | BasePath | RewardPath | SignatureCheck

datatype event = ConsoleLog string | Reached point

text \<open>A computation: the trace it leaves, and the exception thrown or the value returned.\<close>

type_synonym 'a js = "event list \<times> (exn + 'a)"

definition js_return :: "'a \<Rightarrow> 'a js" where
  "js_return x = ([], Inr x)"

definition js_throw :: "exn \<Rightarrow> 'a js" where
  "js_throw e = ([], Inl e)"

definition js_call :: "exn + 'a \<Rightarrow> 'a js" where
  \<comment> \<open>a call into a library: it returns or throws, and leaves no trace\<close>
  "js_call r = ([], r)"

definition js_emit :: "event \<Rightarrow> unit js" where
  "js_emit ev = ([ev], Inr ())"

definition js_bind :: "'a js \<Rightarrow> ('a \<Rightarrow> 'b js) \<Rightarrow> 'b js" where
  "js_bind m f =
     (case m of
        (t, Inl e) \<Rightarrow> (t, Inl e)
      | (t, Inr x) \<Rightarrow> (case f x of (t', r) \<Rightarrow> (t @ t', r)))"

definition js_try :: "'a js \<Rightarrow> (exn \<Rightarrow> 'a js) \<Rightarrow> 'a js" where
  \<comment> \<open>\<open>try { m } catch (e) { h e }\<close>\<close>
  "js_try m h =
     (case m of
        (t, Inl e) \<Rightarrow> (case h e of (t', r) \<Rightarrow> (t @ t', r))
      | (t, Inr x) \<Rightarrow> (t, Inr x))"

definition console_log :: "string \<Rightarrow> unit js" where
  "console_log s = js_emit (ConsoleLog s)"

text \<open>
  The non-null assertion \<open>!!\<close> of TypeScript is erased by the compiler: a value typed
  \<open>T | undefined\<close> stays what it is. So \<open>undefined\<close> flows on, and fails where it is
  used: a method called on it is a \<open>TypeError\<close>, and the generated bindings of the
  libraries throw when they get it in place of a byte array (they read its length)
  or of a class instance (they check it with \<open>instanceof\<close>).
\<close>

definition receiver :: "string \<Rightarrow> 'a option \<Rightarrow> 'a js" where
  "receiver m x =
     (case x of
        None \<Rightarrow>
          js_throw (TypeError (''Cannot read properties of undefined (reading ''
                                 @ [CHR 0x27] @ m @ [CHR 0x27] @ '')''))
      | Some v \<Rightarrow> js_return v)"

definition bytes_arg :: "bytes option \<Rightarrow> bytes js" where
  "bytes_arg x = receiver ''length'' x"

definition instance_arg :: "string \<Rightarrow> 'a option \<Rightarrow> 'a js" where
  "instance_arg klass x =
     (case x of
        None \<Rightarrow> js_throw (Error (''expected instance of '' @ klass))
      | Some v \<Rightarrow> js_return v)"

section \<open>Node's Buffer\<close>

definition unhex :: "char \<Rightarrow> nat option" where
  "unhex c =
     (let n = (of_char c :: nat) in
      if 48 \<le> n \<and> n \<le> 57 then Some (n - 48)
      else if 65 \<le> n \<and> n \<le> 70 then Some (n - 55)
      else if 97 \<le> n \<and> n \<le> 102 then Some (n - 87)
      else None)"

text \<open>
  \<open>Buffer.from(s, 'hex')\<close> never throws on a string: it decodes pairs of hex digits
  and stops at the first pair that is not one; a single trailing character is dropped.
\<close>

fun Buffer_from_hex :: "string \<Rightarrow> bytes" where
  "Buffer_from_hex (a # b # cs) =
     (case (unhex a, unhex b) of
        (Some x, Some y) \<Rightarrow> of_nat (16 * x + y) # Buffer_from_hex cs
      | _ \<Rightarrow> [])"
| "Buffer_from_hex _ = []"

text \<open>\<open>Buffer.from(x)\<close> on a byte array copies it, and throws a \<open>TypeError\<close> on \<open>undefined\<close>.\<close>

definition Buffer_from :: "bytes option \<Rightarrow> bytes js" where
  "Buffer_from x =
     (case x of
        None \<Rightarrow> js_throw (TypeError ''The first argument must be of type string or an instance of Buffer, ArrayBuffer, or Array or an Array-like Object. Received undefined'')
      | Some b \<Rightarrow> js_return b)"

text \<open>\<open>buf.compare(target)\<close>: -1, 0 or 1, by the order of the byte sequences.\<close>

fun Buffer_compare :: "bytes \<Rightarrow> bytes \<Rightarrow> int" where
  "Buffer_compare [] [] = 0"
| "Buffer_compare [] (y # ys) = - 1"
| "Buffer_compare (x # xs) [] = 1"
| "Buffer_compare (x # xs) (y # ys) =
     (if x < y then - 1 else if y < x then 1 else Buffer_compare xs ys)"

section \<open>The two libraries\<close>

text \<open>
  \<open>@emurgo/cardano-serialization-lib-nodejs\<close> (\<open>S\<close>) and
  \<open>@emurgo/cardano-message-signing-nodejs\<close> (\<open>MS\<close>) are not part of the repository.
  Their objects are immutable, so an object is the record of what its methods
  return, for the methods the class calls (and \<open>to_bytes\<close>, which tells the addresses
  apart); a method that can throw returns a sum.
  Their static functions are the fields of the record \<open>lib\<close>, a parameter of every
  function of the class.
\<close>

type_synonym Ed25519KeyHash = bytes
type_synonym Ed25519Signature = bytes

datatype Label = Label_new_text string | Label_new_int int

definition Int_new_negative :: "nat \<Rightarrow> int" where
  "Int_new_negative n = - int n"

record CBORValue =
  CBORValue_as_bytes :: "bytes option"

type_synonym HeaderMap = "Label \<rightharpoonup> CBORValue"
type_synonym COSEKey = "Label \<rightharpoonup> CBORValue"

definition HeaderMap_header :: "HeaderMap \<Rightarrow> Label \<Rightarrow> CBORValue option" where
  "HeaderMap_header m l = m l"

definition COSEKey_header :: "COSEKey \<Rightarrow> Label \<Rightarrow> CBORValue option" where
  "COSEKey_header m l = m l"

record COSESign1 =
  COSESign1_payload :: "bytes option"
  COSESign1_protected_headers :: HeaderMap
    \<comment> \<open>\<open>headers().protected().deserialized_headers()\<close>\<close>
  COSESign1_signature :: bytes
  COSESign1_signed_data :: "exn + bytes"
    \<comment> \<open>\<open>signed_data().to_bytes()\<close>\<close>

record Address =
  Address_to_bytes :: bytes
  Address_to_bech32 :: "exn + string"
  Address_network_id :: "exn + nat"

record StakeCredential =
  StakeCredential_to_keyhash :: "Ed25519KeyHash option"

record BaseAddress =
  BaseAddress_stake_cred :: StakeCredential
  BaseAddress_to_address :: Address

record RewardAddress =
  RewardAddress_to_address :: Address

record PublicKey =
  PublicKey_hash :: Ed25519KeyHash
  PublicKey_verify :: "bytes \<Rightarrow> Ed25519Signature \<Rightarrow> bool"

record lib =
  COSESign1_from_bytes :: "bytes \<Rightarrow> exn + COSESign1"
  COSEKey_from_bytes :: "bytes \<Rightarrow> exn + COSEKey"
  Address_from_bytes :: "bytes \<Rightarrow> exn + Address"
  PublicKey_from_bytes :: "bytes \<Rightarrow> exn + PublicKey"
  Ed25519Signature_from_bytes :: "bytes \<Rightarrow> exn + Ed25519Signature"
  BaseAddress_from_address :: "Address \<Rightarrow> BaseAddress option"
  BaseAddress_new :: "nat \<Rightarrow> StakeCredential \<Rightarrow> StakeCredential \<Rightarrow> BaseAddress"
  RewardAddress_new :: "nat \<Rightarrow> StakeCredential \<Rightarrow> RewardAddress"
  StakeCredential_from_keyhash :: "Ed25519KeyHash \<Rightarrow> StakeCredential"

section \<open>DkCardanoWalletExtension\<close>

text \<open>\<open>verifyPayload\<close> (lines 61 to 63): the number \<open>compare\<close> returns, not a boolean.\<close>

definition verifyPayload :: "string \<Rightarrow> bytes option \<Rightarrow> int js" where
  "verifyPayload payload payloadCose =
     js_bind (Buffer_from payloadCose) (\<lambda>b.
     js_return (Buffer_compare b (Buffer_from_hex payload)))"

text \<open>The first inner \<open>try\<close> block of \<open>verifyAddress\<close> (lines 75 to 90).\<close>

definition verifyAddress_base :: "lib \<Rightarrow> Address \<Rightarrow> Address \<Rightarrow> PublicKey \<Rightarrow> bool js" where
  "verifyAddress_base L checkAddress addressCose publicKeyCose =
     js_bind (receiver ''stake_cred'' (BaseAddress_from_address L addressCose)) (\<lambda>baseAddress.
     let paymentKeyHash = PublicKey_hash publicKeyCose;
         stakeKeyHash = StakeCredential_to_keyhash (BaseAddress_stake_cred baseAddress)
     in
     js_bind (js_call (Address_network_id checkAddress)) (\<lambda>network.
     js_bind (instance_arg ''Ed25519KeyHash'' (Some paymentKeyHash)) (\<lambda>h1.
     js_bind (instance_arg ''Ed25519KeyHash'' stakeKeyHash) (\<lambda>h2.
     let reconstructedAddress =
           BaseAddress_new L network
             (StakeCredential_from_keyhash L h1) (StakeCredential_from_keyhash L h2)
     in
     js_bind (js_call (Address_to_bech32 checkAddress)) (\<lambda>s.
     js_bind (js_call (Address_to_bech32 (BaseAddress_to_address reconstructedAddress))) (\<lambda>s'.
     if s \<noteq> s' then js_return False else js_return True))))))"

text \<open>The second inner \<open>try\<close> block of \<open>verifyAddress\<close> (lines 98 to 110).\<close>

definition verifyAddress_reward :: "lib \<Rightarrow> Address \<Rightarrow> PublicKey \<Rightarrow> bool js" where
  "verifyAddress_reward L checkAddress publicKeyCose =
     (let stakeKeyHash = PublicKey_hash publicKeyCose in
      js_bind (js_call (Address_network_id checkAddress)) (\<lambda>network.
      js_bind (instance_arg ''Ed25519KeyHash'' (Some stakeKeyHash)) (\<lambda>h.
      let reconstructedAddress = RewardAddress_new L network (StakeCredential_from_keyhash L h)
      in
      js_bind (js_call (Address_to_bech32 checkAddress)) (\<lambda>s.
      js_bind (js_call (Address_to_bech32 (RewardAddress_to_address reconstructedAddress))) (\<lambda>s'.
      if s \<noteq> s' then js_return False else js_return True)))))"

text \<open>
  \<open>verifyAddress\<close> (lines 65 to 121). A \<open>try\<close> block that returns gives \<open>Some\<close> of
  the value; one that is left by its last statement, or through its handler, gives
  \<open>None\<close>, and execution goes on after it.
\<close>

definition verifyAddress :: "lib \<Rightarrow> string \<Rightarrow> Address \<Rightarrow> PublicKey \<Rightarrow> bool js" where
  "verifyAddress L address addressCose publicKeyCose =
     js_bind (js_emit (Reached AddressCheck)) (\<lambda>_.
     js_bind
       (js_try
          (js_bind (js_call (Address_from_bytes L (Buffer_from_hex address))) (\<lambda>checkAddress.
           js_bind (js_call (Address_to_bech32 addressCose)) (\<lambda>s.
           js_bind (js_call (Address_to_bech32 checkAddress)) (\<lambda>s'.
           if s \<noteq> s' then js_return (Some False)
           else
             js_bind
               (js_try
                  (js_bind (js_emit (Reached BasePath)) (\<lambda>_.
                   js_bind (verifyAddress_base L checkAddress addressCose publicKeyCose) (\<lambda>r.
                   js_return (Some r))))
                  (\<lambda>e.
                   js_bind (console_log (''---> The address is not base address, error: '' @ message e)) (\<lambda>_.
                   js_return None)))
               (\<lambda>r1.
             case r1 of
               Some v \<Rightarrow> js_return (Some v)
             | None \<Rightarrow>
                 js_try
                   (js_bind (js_emit (Reached RewardPath)) (\<lambda>_.
                    js_bind (verifyAddress_reward L checkAddress publicKeyCose) (\<lambda>r.
                    js_return (Some r))))
                   (\<lambda>e.
                    js_bind (console_log (''---> The address is not reward address, error: '' @ message e)) (\<lambda>_.
                    js_return None)))))))
          (\<lambda>e.
           js_bind (console_log (''---> Could not verify address, error: '' @ message e)) (\<lambda>_.
           js_return None)))
       (\<lambda>r.
     case r of
       Some v \<Rightarrow> js_return v
     | None \<Rightarrow> js_return False))"

text \<open>
  Lines 32 to 39 of \<open>verifySignedMessage\<close>: the address under the label
  \<open>address\<close> of the protected headers.
\<close>

definition get_addressCose :: "lib \<Rightarrow> COSESign1 \<Rightarrow> Address js" where
  "get_addressCose L coseSign1 =
     (let protectedHeaders = COSESign1_protected_headers coseSign1 in
      js_bind (receiver ''as_bytes''
                 (HeaderMap_header protectedHeaders (Label_new_text ''address''))) (\<lambda>v.
      js_bind (bytes_arg (CBORValue_as_bytes v)) (\<lambda>a.
      js_call (Address_from_bytes L a))))"

text \<open>Lines 43 to 48 of \<open>verifySignedMessage\<close>: the public key under the label -2 of the key.\<close>

definition get_publicKeyCose :: "lib \<Rightarrow> string \<Rightarrow> PublicKey js" where
  "get_publicKeyCose L coseKeyHex =
     js_bind (js_call (COSEKey_from_bytes L (Buffer_from_hex coseKeyHex))) (\<lambda>coseKey.
     js_bind (receiver ''as_bytes''
                (COSEKey_header coseKey (Label_new_int (Int_new_negative 2)))) (\<lambda>w.
     let publicKeyBytes = CBORValue_as_bytes w in
     js_bind (bytes_arg publicKeyBytes) (\<lambda>k.
     js_call (PublicKey_from_bytes L k))))"

text \<open>\<open>verifySignedMessage\<close> (lines 22 to 58).\<close>

definition verifySignedMessage :: "lib \<Rightarrow> string \<Rightarrow> string \<Rightarrow> string \<Rightarrow> string \<Rightarrow> bool js" where
  "verifySignedMessage L address payload coseSign1Hex coseKeyHex =
     js_bind (js_call (COSESign1_from_bytes L (Buffer_from_hex coseSign1Hex))) (\<lambda>coseSign1.
     let payloadCose = COSESign1_payload coseSign1 in
     js_bind (verifyPayload payload payloadCose) (\<lambda>c.
     if c \<noteq> 0 then js_throw (Error ''Payload mismatch'')
     else
       js_bind (get_addressCose L coseSign1) (\<lambda>addressCose.
       js_bind (get_publicKeyCose L coseKeyHex) (\<lambda>publicKeyCose.
       js_bind (verifyAddress L address addressCose publicKeyCose) (\<lambda>ok.
       if \<not> ok then js_throw (Error ''Address mismatch'')
       else
         js_bind (js_call (Ed25519Signature_from_bytes L (COSESign1_signature coseSign1))) (\<lambda>signature.
         js_bind (js_call (COSESign1_signed_data coseSign1)) (\<lambda>signed_data.
         js_bind (js_emit (Reached SignatureCheck)) (\<lambda>_.
         js_return (PublicKey_verify publicKeyCose signed_data signature)))))))))"

section \<open>A small instance of the libraries\<close>

text \<open>
  An instance of \<open>lib\<close> to run the class on concrete inputs. It is not the real
  libraries: keys and key hashes have two bytes and a signature three, the envelope
  is a length-prefixed payload, a length-prefixed address and the signature (a first
  byte \<open>0xf6\<close>, the null of CBOR, stands for an absent payload), and the canonical
  string has hex digits where bech32 has base 32 and a checksum. Addresses keep the
  layout of the real ones: the type in the upper half of the first byte (0 to 3 Base,
  6 and 7 Enterprise, 14 and 15 Reward), the network in the lower half.
\<close>

definition hex_digit :: "nat \<Rightarrow> char" where
  "hex_digit n = ''0123456789abcdef'' ! n"

definition to_hex :: "bytes \<Rightarrow> string" where
  "to_hex bs = concat (map (\<lambda>b. [hex_digit (unat b div 16), hex_digit (unat b mod 16)]) bs)"

definition sample_address :: "string \<Rightarrow> nat \<Rightarrow> bytes \<Rightarrow> Address" where
  "sample_address hrp network bs =
     \<lparr>Address_to_bytes = bs,
      Address_to_bech32 =
        Inr (hrp @ (if network = 0 then ''_test'' else []) @ ''1'' @ to_hex bs),
      Address_network_id = Inr network\<rparr>"

definition sample_hash_of :: "StakeCredential \<Rightarrow> bytes" where
  "sample_hash_of c = (case StakeCredential_to_keyhash c of None \<Rightarrow> [] | Some h \<Rightarrow> h)"

definition sample_BaseAddress_new :: "nat \<Rightarrow> StakeCredential \<Rightarrow> StakeCredential \<Rightarrow> BaseAddress" where
  "sample_BaseAddress_new network payment stake =
     \<lparr>BaseAddress_stake_cred = stake,
      BaseAddress_to_address =
        sample_address ''addr'' network
          (of_nat network # sample_hash_of payment @ sample_hash_of stake)\<rparr>"

definition sample_RewardAddress_new :: "nat \<Rightarrow> StakeCredential \<Rightarrow> RewardAddress" where
  "sample_RewardAddress_new network stake =
     \<lparr>RewardAddress_to_address =
        sample_address ''stake'' network (of_nat (224 + network) # sample_hash_of stake)\<rparr>"

definition sample_Address_from_bytes :: "bytes \<Rightarrow> exn + Address" where
  "sample_Address_from_bytes bs =
     (case bs of
        [] \<Rightarrow> Inl (Thrown ''Deserialization failed in Address because: Invalid cbor: not enough bytes'')
      | h # rest \<Rightarrow>
          let t = unat h div 16; n = unat h mod 16 in
          if t \<le> 3 \<and> length rest = 4 then Inr (sample_address ''addr'' n bs)
          else if (t = 6 \<or> t = 7) \<and> length rest = 2 then Inr (sample_address ''addr'' n bs)
          else if (t = 14 \<or> t = 15) \<and> length rest = 2 then Inr (sample_address ''stake'' n bs)
          else Inl (Thrown ''Deserialization failed in Address because: Bad address''))"

definition sample_BaseAddress_from_address :: "Address \<Rightarrow> BaseAddress option" where
  "sample_BaseAddress_from_address a =
     (case Address_to_bytes a of
        [] \<Rightarrow> None
      | h # rest \<Rightarrow>
          let t = unat h div 16 in
          if t \<le> 3 \<and> length rest = 4
          then Some \<lparr>BaseAddress_stake_cred =
                       \<lparr>StakeCredential_to_keyhash =
                          (if t = 0 \<or> t = 1 then Some (drop 2 rest) else None)\<rparr>,
                     BaseAddress_to_address = a\<rparr>
          else None)"

definition sample_PublicKey :: "bytes \<Rightarrow> PublicKey" where
  "sample_PublicKey k =
     \<lparr>PublicKey_hash = map (\<lambda>b. b + 1) k,
      PublicKey_verify = (\<lambda>d s. s = k @ [sum_list d])\<rparr>"

definition sample_PublicKey_from_bytes :: "bytes \<Rightarrow> exn + PublicKey" where
  "sample_PublicKey_from_bytes k =
     (if length k = 2 then Inr (sample_PublicKey k)
      else Inl (Thrown ''Invalid Public Key size''))"

definition sample_Ed25519Signature_from_bytes :: "bytes \<Rightarrow> exn + Ed25519Signature" where
  "sample_Ed25519Signature_from_bytes s =
     (if length s = 3 then Inr s else Inl (Thrown ''Invalid Signature size''))"

definition sample_COSEKey_from_bytes :: "bytes \<Rightarrow> exn + COSEKey" where
  "sample_COSEKey_from_bytes bs =
     (case bs of
        [] \<Rightarrow> Inl (Thrown ''Deserialization failed in COSEKey'')
      | _ # _ \<Rightarrow>
          Inr [Label_new_int (- 2) \<mapsto> \<lparr>CBORValue_as_bytes = Some bs\<rparr>])"

definition sample_COSESign1_from_bytes :: "bytes \<Rightarrow> exn + COSESign1" where
  "sample_COSESign1_from_bytes bs =
     (case bs of
        [] \<Rightarrow> Inl (Thrown ''Deserialization failed in COSESign1'')
      | p # rest \<Rightarrow>
          let payload = (if p = 246 then None else Some (take (unat p) rest));
              rest' = (if p = 246 then rest else drop (unat p) rest)
          in
          (case rest' of
             [] \<Rightarrow> Inl (Thrown ''Deserialization failed in COSESign1'')
           | a # rest'' \<Rightarrow>
               let addr = take (unat a) rest''; sig = drop (unat a) rest'' in
               Inr \<lparr>COSESign1_payload = payload,
                    COSESign1_protected_headers =
                      [Label_new_text ''address'' \<mapsto> \<lparr>CBORValue_as_bytes = Some addr\<rparr>],
                    COSESign1_signature = sig,
                    COSESign1_signed_data =
                      (case payload of
                         None \<Rightarrow> Inl (Thrown ''No payload to sign'')
                       | Some q \<Rightarrow> Inr (addr @ q))\<rparr>))"

definition sample_lib :: lib where
  "sample_lib =
     \<lparr>COSESign1_from_bytes = sample_COSESign1_from_bytes,
      COSEKey_from_bytes = sample_COSEKey_from_bytes,
      Address_from_bytes = sample_Address_from_bytes,
      PublicKey_from_bytes = sample_PublicKey_from_bytes,
      Ed25519Signature_from_bytes = sample_Ed25519Signature_from_bytes,
      BaseAddress_from_address = sample_BaseAddress_from_address,
      BaseAddress_new = sample_BaseAddress_new,
      RewardAddress_new = sample_RewardAddress_new,
      StakeCredential_from_keyhash = (\<lambda>h. \<lparr>StakeCredential_to_keyhash = Some h\<rparr>)\<rparr>"

section \<open>Basic facts\<close>

lemmas js_defs =
  js_return_def js_throw_def js_call_def js_emit_def js_bind_def js_try_def console_log_def
  receiver_def bytes_arg_def instance_arg_def Buffer_from_def

lemma Buffer_compare_eq_0: "Buffer_compare a b = 0 \<longleftrightarrow> a = b"
  by (induction a b rule: Buffer_compare.induct) auto

lemma Buffer_from_hex_append:
  "even (length h) \<Longrightarrow> \<forall>x\<in>set h. unhex x \<noteq> None \<Longrightarrow>
   Buffer_from_hex (h @ j) = Buffer_from_hex h @ Buffer_from_hex j"
  by (induction h rule: Buffer_from_hex.induct) auto

lemma Buffer_from_hex_invalid:
  "unhex c = None \<or> unhex d = None \<Longrightarrow> Buffer_from_hex (c # d # r) = []"
  by (auto split: option.splits)

lemma verifyPayload_Some:
  "verifyPayload payload (Some p) = ([], Inr (Buffer_compare p (Buffer_from_hex payload)))"
  by (simp add: verifyPayload_def js_defs)

lemma verifyPayload_None: "\<exists>m. verifyPayload payload None = ([], Inl (TypeError m))"
  by (simp add: verifyPayload_def js_defs)

lemma fst_js_bind:
  "fst (js_bind m f) = fst m @ (case snd m of Inl e \<Rightarrow> [] | Inr x \<Rightarrow> fst (f x))"
  by (simp add: js_bind_def split: prod.splits sum.splits)

lemma snd_js_bind:
  "snd (js_bind m f) = (case snd m of Inl e \<Rightarrow> Inl e | Inr x \<Rightarrow> snd (f x))"
  by (simp add: js_bind_def split: prod.splits sum.splits)

lemma fst_js_try:
  "fst (js_try m h) = fst m @ (case snd m of Inl e \<Rightarrow> fst (h e) | Inr x \<Rightarrow> [])"
  by (simp add: js_try_def split: prod.splits sum.splits)

lemma snd_js_try:
  "snd (js_try m h) = (case snd m of Inl e \<Rightarrow> snd (h e) | Inr x \<Rightarrow> Inr x)"
  by (simp add: js_try_def split: prod.splits sum.splits)

lemmas js_sel = fst_js_bind snd_js_bind fst_js_try snd_js_try

lemma js_prims [simp]:
  "fst (js_return x) = []" "snd (js_return x) = Inr x"
  "fst (js_throw e) = []" "snd (js_throw e) = Inl e"
  "fst (js_call r) = []" "snd (js_call r) = r"
  "fst (js_emit ev) = [ev]" "snd (js_emit ev) = Inr ()"
  "fst (console_log s) = [ConsoleLog s]" "snd (console_log s) = Inr ()"
  by (simp_all add: js_defs)

lemma fst_receiver [simp]: "fst (receiver m x) = []"
  by (simp add: receiver_def split: option.splits)

lemma fst_bytes_arg [simp]: "fst (bytes_arg x) = []"
  by (simp add: bytes_arg_def)

lemma fst_instance_arg [simp]: "fst (instance_arg c x) = []"
  by (simp add: instance_arg_def split: option.splits)

lemma fst_verifyPayload [simp]: "fst (verifyPayload payload p) = []"
  by (cases p) (simp_all add: verifyPayload_def js_defs)

lemma fst_get_addressCose [simp]: "fst (get_addressCose L c) = []"
  by (simp add: get_addressCose_def js_sel Let_def split: sum.splits)

lemma fst_get_publicKeyCose [simp]: "fst (get_publicKeyCose L k) = []"
  by (simp add: get_publicKeyCose_def js_sel Let_def split: sum.splits)

lemma fst_verifyAddress_base [simp]: "fst (verifyAddress_base L c a k) = []"
  by (simp add: verifyAddress_base_def js_sel Let_def split: sum.splits)

lemma fst_verifyAddress_reward [simp]: "fst (verifyAddress_reward L c k) = []"
  by (simp add: verifyAddress_reward_def js_sel Let_def split: sum.splits)

lemma verifyAddress_no_SignatureCheck:
  "Reached SignatureCheck \<notin> set (fst (verifyAddress L address a k))"
  by (simp add: verifyAddress_def js_sel split: sum.splits option.splits)

lemma verifyAddress_not_Inl: "snd (verifyAddress L address a k) \<noteq> Inl e"
  by (simp add: verifyAddress_def js_sel split: sum.splits option.splits)

lemma verifyAddress_returns: "\<exists>b. snd (verifyAddress L address a k) = Inr b"
  using verifyAddress_not_Inl [of L address a k] by (cases "snd (verifyAddress L address a k)") auto

lemmas model_defs =
  verifySignedMessage_def verifyAddress_def verifyAddress_base_def verifyAddress_reward_def
  get_addressCose_def get_publicKeyCose_def verifyPayload_def HeaderMap_header_def
  COSEKey_header_def Int_new_negative_def

lemmas sample_defs =
  sample_lib_def sample_COSESign1_from_bytes_def sample_COSEKey_from_bytes_def
  sample_Address_from_bytes_def sample_PublicKey_from_bytes_def sample_PublicKey_def
  sample_Ed25519Signature_from_bytes_def sample_BaseAddress_from_address_def
  sample_BaseAddress_new_def sample_RewardAddress_new_def sample_address_def
  sample_hash_of_def to_hex_def hex_digit_def unhex_def

lemma js_eq_iff: "m = (t, r) \<longleftrightarrow> fst m = t \<and> snd m = r"
  by auto

section \<open>The properties\<close>

text \<open>
  C1. \<open>verifySignedMessage\<close> calls the signature primitive only after the payload
  check and the address check have passed, and the boolean it returns is the result
  of that call: whenever it returns a boolean, or reaches the call of
  \<open>publicKeyCose.verify\<close>, the envelope was decoded, \<open>verifyPayload\<close> gave 0,
  \<open>verifyAddress\<close> gave \<open>true\<close>, the call is the last event of the trace and the
  value returned is what \<open>verify\<close> gave. So a check that fails never yields
  \<open>false\<close>: it can only throw.
\<close>

theorem signature_check_after_both_checks:
  assumes "snd (verifySignedMessage L address payload coseSign1Hex coseKeyHex) = Inr b
         \<or> Reached SignatureCheck \<in> set (fst (verifySignedMessage L address payload coseSign1Hex coseKeyHex))"
  shows "\<exists>coseSign1 addressCose publicKeyCose signature signed_data t.
      COSESign1_from_bytes L (Buffer_from_hex coseSign1Hex) = Inr coseSign1
    \<and> verifyPayload payload (COSESign1_payload coseSign1) = ([], Inr 0)
    \<and> get_addressCose L coseSign1 = ([], Inr addressCose)
    \<and> get_publicKeyCose L coseKeyHex = ([], Inr publicKeyCose)
    \<and> verifyAddress L address addressCose publicKeyCose = (t, Inr True)
    \<and> Ed25519Signature_from_bytes L (COSESign1_signature coseSign1) = Inr signature
    \<and> COSESign1_signed_data coseSign1 = Inr signed_data
    \<and> verifySignedMessage L address payload coseSign1Hex coseKeyHex =
        (t @ [Reached SignatureCheck], Inr (PublicKey_verify publicKeyCose signed_data signature))"
  using assms verifyAddress_no_SignatureCheck [of L address]
  by (auto simp: verifySignedMessage_def js_eq_iff js_sel split: sum.splits if_splits)

theorem signature_check_after_both_checks_witness:
  "verifySignedMessage sample_lib ''010b0c0708'' ''6e6f6e63652d313233''
     ''096e6f6e63652d31323305010b0c07080a0bfd'' ''0a0b''
     = ([Reached AddressCheck, Reached BasePath, Reached SignatureCheck], Inr True)
 \<and> (\<exists>coseSign1 addressCose publicKeyCose t.
       COSESign1_from_bytes sample_lib (Buffer_from_hex ''096e6f6e63652d31323305010b0c07080a0bfd'')
         = Inr coseSign1
     \<and> verifyPayload ''6e6f6e63652d313233'' (COSESign1_payload coseSign1) = ([], Inr 0)
     \<and> verifyAddress sample_lib ''010b0c0708'' addressCose publicKeyCose = (t, Inr True))"
proof -
  have r: "verifySignedMessage sample_lib ''010b0c0708'' ''6e6f6e63652d313233''
     ''096e6f6e63652d31323305010b0c07080a0bfd'' ''0a0b''
     = ([Reached AddressCheck, Reached BasePath, Reached SignatureCheck], Inr True)"
    by (simp add: model_defs js_defs sample_defs)
  then have h: "snd (verifySignedMessage sample_lib ''010b0c0708'' ''6e6f6e63652d313233''
     ''096e6f6e63652d31323305010b0c07080a0bfd'' ''0a0b'') = Inr True
    \<or> Reached SignatureCheck \<in> set (fst (verifySignedMessage sample_lib ''010b0c0708''
     ''6e6f6e63652d313233'' ''096e6f6e63652d31323305010b0c07080a0bfd'' ''0a0b''))"
    by simp
  from signature_check_after_both_checks [OF h]
  have "\<exists>coseSign1 addressCose publicKeyCose t.
       COSESign1_from_bytes sample_lib (Buffer_from_hex ''096e6f6e63652d31323305010b0c07080a0bfd'')
         = Inr coseSign1
     \<and> verifyPayload ''6e6f6e63652d313233'' (COSESign1_payload coseSign1) = ([], Inr 0)
     \<and> verifyAddress sample_lib ''010b0c0708'' addressCose publicKeyCose = (t, Inr True)"
    by blast
  with r show ?thesis by (rule conjI)
qed

text \<open>
  C2. When the payload of the envelope is the bytes decoded from the hex string
  \<open>payload\<close>, the payload check passes: \<open>verifyPayload\<close> gives 0, the \<open>if\<close> of
  lines 27 to 29 is not taken, and \<open>verifySignedMessage\<close> is what lines 31 to 57 do;
  once the embedded address and the public key are decoded, the address check is
  entered. When the payload differs in any way, \<open>verifySignedMessage\<close> throws
  \<open>Error('Payload mismatch')\<close> and nothing later has run: the trace is empty.
\<close>

theorem payload_check_exact:
  assumes "COSESign1_from_bytes L (Buffer_from_hex coseSign1Hex) = Inr coseSign1"
    and "COSESign1_payload coseSign1 = Some p"
  shows "(p = Buffer_from_hex payload \<longrightarrow>
            verifyPayload payload (COSESign1_payload coseSign1) = ([], Inr 0)
          \<and> verifySignedMessage L address payload coseSign1Hex coseKeyHex =
              js_bind (get_addressCose L coseSign1) (\<lambda>addressCose.
              js_bind (get_publicKeyCose L coseKeyHex) (\<lambda>publicKeyCose.
              js_bind (verifyAddress L address addressCose publicKeyCose) (\<lambda>ok.
              if \<not> ok then js_throw (Error ''Address mismatch'')
              else
                js_bind (js_call (Ed25519Signature_from_bytes L (COSESign1_signature coseSign1))) (\<lambda>signature.
                js_bind (js_call (COSESign1_signed_data coseSign1)) (\<lambda>signed_data.
                js_bind (js_emit (Reached SignatureCheck)) (\<lambda>_.
                js_return (PublicKey_verify publicKeyCose signed_data signature)))))))
          \<and> (\<forall>addressCose publicKeyCose.
                get_addressCose L coseSign1 = ([], Inr addressCose) \<and>
                get_publicKeyCose L coseKeyHex = ([], Inr publicKeyCose) \<longrightarrow>
                (\<exists>t. fst (verifySignedMessage L address payload coseSign1Hex coseKeyHex)
                       = Reached AddressCheck # t)))
       \<and> (p \<noteq> Buffer_from_hex payload \<longrightarrow>
            verifySignedMessage L address payload coseSign1Hex coseKeyHex =
              ([], Inl (Error ''Payload mismatch'')))"
proof -
  have c: "verifyPayload payload (COSESign1_payload coseSign1)
             = ([], Inr (Buffer_compare p (Buffer_from_hex payload)))"
    using assms(2) by (simp add: verifyPayload_Some)
  have neq: "p \<noteq> Buffer_from_hex payload \<Longrightarrow>
            verifySignedMessage L address payload coseSign1Hex coseKeyHex =
              ([], Inl (Error ''Payload mismatch''))"
    using assms(1) c
    by (simp add: verifySignedMessage_def Buffer_compare_eq_0 js_eq_iff js_sel)
  have eq: "p = Buffer_from_hex payload \<Longrightarrow>
          verifySignedMessage L address payload coseSign1Hex coseKeyHex =
              js_bind (get_addressCose L coseSign1) (\<lambda>addressCose.
              js_bind (get_publicKeyCose L coseKeyHex) (\<lambda>publicKeyCose.
              js_bind (verifyAddress L address addressCose publicKeyCose) (\<lambda>ok.
              if \<not> ok then js_throw (Error ''Address mismatch'')
              else
                js_bind (js_call (Ed25519Signature_from_bytes L (COSESign1_signature coseSign1))) (\<lambda>signature.
                js_bind (js_call (COSESign1_signed_data coseSign1)) (\<lambda>signed_data.
                js_bind (js_emit (Reached SignatureCheck)) (\<lambda>_.
                js_return (PublicKey_verify publicKeyCose signed_data signature)))))))"
    using assms(1) c
    by (simp add: verifySignedMessage_def Buffer_compare_eq_0 js_call_def js_bind_def)
  have reach: "\<exists>t. fst (verifySignedMessage L address payload coseSign1Hex coseKeyHex)
                       = Reached AddressCheck # t"
    if "p = Buffer_from_hex payload"
      and "get_addressCose L coseSign1 = ([], Inr addressCose)"
      and "get_publicKeyCose L coseKeyHex = ([], Inr publicKeyCose)"
    for addressCose publicKeyCose
    using assms(1) c that
    by (simp add: verifySignedMessage_def verifyAddress_def Buffer_compare_eq_0 js_sel)
  show ?thesis
    using c neq eq reach by (simp add: Buffer_compare_eq_0)
qed

theorem payload_check_exact_witness:
  "verifySignedMessage sample_lib ''010b0c0708'' ''6e6f6e63652d313233''
       ''096e6f6e63652d31323305010b0c07080a0bfd'' ''0a0b''
       = ([Reached AddressCheck, Reached BasePath, Reached SignatureCheck], Inr True)
 \<and> verifySignedMessage sample_lib ''010b0c0708'' ''6e6f6e63652d313234''
       ''096e6f6e63652d31323305010b0c07080a0bfd'' ''0a0b''
       = ([], Inl (Error ''Payload mismatch''))"
proof -
  obtain c where c:
    "COSESign1_from_bytes sample_lib (Buffer_from_hex ''096e6f6e63652d31323305010b0c07080a0bfd'')
       = Inr c"
    "COSESign1_payload c = Some (Buffer_from_hex ''6e6f6e63652d313233'')"
    and rest:
    "get_addressCose sample_lib c = ([], Inr (sample_address ''addr'' 1 [1, 11, 12, 7, 8]))"
    "Ed25519Signature_from_bytes sample_lib (COSESign1_signature c) = Inr [10, 11, 253]"
    "COSESign1_signed_data c = Inr [1, 11, 12, 7, 8, 110, 111, 110, 99, 101, 45, 49, 50, 51]"
    by (simp add: model_defs js_defs sample_defs)
  have k: "get_publicKeyCose sample_lib ''0a0b'' = ([], Inr (sample_PublicKey [10, 11]))"
    by (simp add: model_defs js_defs sample_defs)
  have v: "verifyAddress sample_lib ''010b0c0708'' (sample_address ''addr'' 1 [1, 11, 12, 7, 8])
             (sample_PublicKey [10, 11]) = ([Reached AddressCheck, Reached BasePath], Inr True)"
    by (simp add: model_defs js_defs sample_defs)
  have pv: "PublicKey_verify (sample_PublicKey [10, 11])
              [1, 11, 12, 7, 8, 110, 111, 110, 99, 101, 45, 49, 50, 51] [10, 11, 253]"
    by (simp add: sample_PublicKey_def)
  have ne: "Buffer_from_hex ''6e6f6e63652d313233'' \<noteq> Buffer_from_hex ''6e6f6e63652d313234''"
    by (simp add: unhex_def)
  from payload_check_exact [OF c, of "''6e6f6e63652d313233''" "''010b0c0708''" "''0a0b''"]
  have "verifySignedMessage sample_lib ''010b0c0708'' ''6e6f6e63652d313233''
       ''096e6f6e63652d31323305010b0c07080a0bfd'' ''0a0b'' =
              js_bind (get_addressCose sample_lib c) (\<lambda>addressCose.
              js_bind (get_publicKeyCose sample_lib ''0a0b'') (\<lambda>publicKeyCose.
              js_bind (verifyAddress sample_lib ''010b0c0708'' addressCose publicKeyCose) (\<lambda>ok.
              if \<not> ok then js_throw (Error ''Address mismatch'')
              else
                js_bind (js_call (Ed25519Signature_from_bytes sample_lib (COSESign1_signature c))) (\<lambda>signature.
                js_bind (js_call (COSESign1_signed_data c)) (\<lambda>signed_data.
                js_bind (js_emit (Reached SignatureCheck)) (\<lambda>_.
                js_return (PublicKey_verify publicKeyCose signed_data signature)))))))"
    by simp
  then have 1: "verifySignedMessage sample_lib ''010b0c0708'' ''6e6f6e63652d313233''
       ''096e6f6e63652d31323305010b0c07080a0bfd'' ''0a0b''
       = ([Reached AddressCheck, Reached BasePath, Reached SignatureCheck], Inr True)"
    using rest k v pv by (simp add: js_eq_iff js_sel del: One_nat_def)
  from payload_check_exact [OF c, of "''6e6f6e63652d313234''" "''010b0c0708''" "''0a0b''"] ne
  have 2: "verifySignedMessage sample_lib ''010b0c0708'' ''6e6f6e63652d313234''
       ''096e6f6e63652d31323305010b0c07080a0bfd'' ''0a0b''
       = ([], Inl (Error ''Payload mismatch''))"
    by simp
  from 1 2 show ?thesis by (rule conjI)
qed

text \<open>
  C3. When the bech32 string of the embedded address differs from that of the address
  decoded from the claimed hex, \<open>verifyAddress\<close> returns \<open>false\<close> at once, whatever
  the public key is: neither reconstruction is entered.
\<close>

theorem differing_addresses_rejected:
  assumes "Address_from_bytes L (Buffer_from_hex address) = Inr checkAddress"
    and "Address_to_bech32 addressCose = Inr s"
    and "Address_to_bech32 checkAddress = Inr s'"
    and "s \<noteq> s'"
  shows "verifyAddress L address addressCose publicKeyCose = ([Reached AddressCheck], Inr False)"
  using assms by (simp add: verifyAddress_def js_eq_iff js_sel)

theorem differing_addresses_rejected_witness:
  "verifyAddress sample_lib ''010b0c0709''
     (sample_address ''addr'' 1 [1, 11, 12, 7, 8]) (sample_PublicKey [10, 11])
     = ([Reached AddressCheck], Inr False)
 \<and> snd (verifyAddress sample_lib ''010b0c0708''
     (sample_address ''addr'' 1 [1, 11, 12, 7, 8]) (sample_PublicKey [10, 11])) = Inr True"
proof -
  have 1: "Address_from_bytes sample_lib (Buffer_from_hex ''010b0c0709'')
             = Inr (sample_address ''addr'' 1 [1, 11, 12, 7, 9])"
    by (simp add: sample_defs)
  have 2: "Address_to_bech32 (sample_address ''addr'' 1 [1, 11, 12, 7, 8]) = Inr ''addr1010b0c0708''"
    by (simp add: sample_defs)
  have 3: "Address_to_bech32 (sample_address ''addr'' 1 [1, 11, 12, 7, 9]) = Inr ''addr1010b0c0709''"
    by (simp add: sample_defs)
  have 4: "''addr1010b0c0708'' \<noteq> ''addr1010b0c0709''"
    by simp
  have 5: "snd (verifyAddress sample_lib ''010b0c0708''
     (sample_address ''addr'' 1 [1, 11, 12, 7, 8]) (sample_PublicKey [10, 11])) = Inr True"
    by (simp add: model_defs js_defs sample_defs)
  from differing_addresses_rejected [OF 1 2 3 4] 5 show ?thesis by (rule conjI)
qed

text \<open>
  C4. Round trip for Base addresses. When the claimed and the embedded address are
  the Base address built from network \<open>N\<close>, the hash of the public key as payment
  credential and the key hash \<open>H\<close> as stake credential, \<open>verifyAddress\<close> returns
  \<open>true\<close> with that public key. The hypotheses on the library say that it reads back
  what it built: the address decodes from the claimed hex, has a bech32 string and
  the network \<open>N\<close>, and is a Base address whose stake credential is the key hash
  \<open>H\<close>.
\<close>

theorem base_address_round_trip:
  assumes "Address_from_bytes L (Buffer_from_hex address) = Inr a"
    and "a = BaseAddress_to_address
               (BaseAddress_new L N
                  (StakeCredential_from_keyhash L (PublicKey_hash publicKeyCose))
                  (StakeCredential_from_keyhash L H))"
    and "Address_to_bech32 a = Inr s"
    and "Address_network_id a = Inr N"
    and "BaseAddress_from_address L a = Some baseAddress"
    and "StakeCredential_to_keyhash (BaseAddress_stake_cred baseAddress) = Some H"
  shows "verifyAddress L address a publicKeyCose = ([Reached AddressCheck, Reached BasePath], Inr True)"
proof -
  have "verifyAddress_base L a a publicKeyCose = ([], Inr True)"
    using assms(3-6) assms(2) [symmetric]
    by (simp add: verifyAddress_base_def js_eq_iff js_sel receiver_def instance_arg_def)
  then show ?thesis
    using assms(1,3) by (simp add: verifyAddress_def js_eq_iff js_sel)
qed

theorem base_address_round_trip_witness:
  "verifyAddress sample_lib ''010b0c0708''
     (sample_address ''addr'' 1 [1, 11, 12, 7, 8]) (sample_PublicKey [10, 11])
     = ([Reached AddressCheck, Reached BasePath], Inr True)"
proof -
  let ?a = "sample_address ''addr'' 1 [1, 11, 12, 7, 8]"
  have 1: "Address_from_bytes sample_lib (Buffer_from_hex ''010b0c0708'') = Inr ?a"
    by (simp add: sample_defs)
  have 2: "?a = BaseAddress_to_address
               (BaseAddress_new sample_lib 1
                  (StakeCredential_from_keyhash sample_lib (PublicKey_hash (sample_PublicKey [10, 11])))
                  (StakeCredential_from_keyhash sample_lib [7, 8]))"
    by (simp add: sample_defs)
  have 3: "Address_to_bech32 ?a = Inr ''addr1010b0c0708''"
    by (simp add: sample_defs)
  have 4: "Address_network_id ?a = Inr 1"
    by (simp add: sample_defs)
  have 5: "BaseAddress_from_address sample_lib ?a =
             Some \<lparr>BaseAddress_stake_cred = \<lparr>StakeCredential_to_keyhash = Some [7, 8]\<rparr>,
                   BaseAddress_to_address = ?a\<rparr>"
    by (simp add: sample_defs)
  have 6: "StakeCredential_to_keyhash
             (BaseAddress_stake_cred
                \<lparr>BaseAddress_stake_cred = \<lparr>StakeCredential_to_keyhash = Some [7, 8]\<rparr>,
                 BaseAddress_to_address = ?a\<rparr>) = Some [7, 8]"
    by simp
  show ?thesis by (rule base_address_round_trip [OF 1 2 3 4 5 6])
qed

text \<open>
  C5. Round trip for Reward addresses. When the claimed and the embedded address are
  the Reward address built from network \<open>N\<close> and the hash of the public key,
  \<open>verifyAddress\<close> returns \<open>true\<close> with that public key, through the Reward path.
  The hypotheses on the library: the address decodes from the claimed hex, has a
  bech32 string and the network \<open>N\<close>, and is not a Base address.
\<close>

theorem reward_address_round_trip:
  assumes "Address_from_bytes L (Buffer_from_hex address) = Inr a"
    and "a = RewardAddress_to_address
               (RewardAddress_new L N
                  (StakeCredential_from_keyhash L (PublicKey_hash publicKeyCose)))"
    and "Address_to_bech32 a = Inr s"
    and "Address_network_id a = Inr N"
    and "BaseAddress_from_address L a = None"
  shows "\<exists>m. verifyAddress L address a publicKeyCose =
           ([Reached AddressCheck, Reached BasePath, ConsoleLog m, Reached RewardPath], Inr True)"
proof -
  have b: "\<exists>m. verifyAddress_base L a a publicKeyCose = ([], Inl (TypeError m))"
    using assms(5) by (simp add: verifyAddress_base_def js_eq_iff js_sel receiver_def)
  have r: "verifyAddress_reward L a publicKeyCose = ([], Inr True)"
    using assms(3,4) assms(2) [symmetric]
    by (simp add: verifyAddress_reward_def js_eq_iff js_sel instance_arg_def)
  from b r show ?thesis
    using assms(1,3) by (auto simp: verifyAddress_def js_eq_iff js_sel)
qed

theorem reward_address_round_trip_witness:
  "\<exists>m. verifyAddress sample_lib ''e10b0c''
     (sample_address ''stake'' 1 [225, 11, 12]) (sample_PublicKey [10, 11])
     = ([Reached AddressCheck, Reached BasePath, ConsoleLog m, Reached RewardPath], Inr True)"
proof -
  let ?a = "sample_address ''stake'' 1 [225, 11, 12]"
  have 1: "Address_from_bytes sample_lib (Buffer_from_hex ''e10b0c'') = Inr ?a"
    by (simp add: sample_defs)
  have 2: "?a = RewardAddress_to_address
               (RewardAddress_new sample_lib 1
                  (StakeCredential_from_keyhash sample_lib (PublicKey_hash (sample_PublicKey [10, 11]))))"
    by (simp add: sample_defs)
  have 3: "Address_to_bech32 ?a = Inr ''stake1e10b0c''"
    by (simp add: sample_defs)
  have 4: "Address_network_id ?a = Inr 1"
    by (simp add: sample_defs)
  have 5: "BaseAddress_from_address sample_lib ?a = None"
    by (simp add: sample_defs)
  show ?thesis by (rule reward_address_round_trip [OF 1 2 3 4 5])
qed

text \<open>
  C6. When the embedded address is a Base address with a key hash as stake
  credential, and the bech32 string of the reconstructed Base address differs from
  that of the claimed address, \<open>verifyAddress\<close> returns \<open>false\<close> and the Reward path
  is never entered. When the embedded and the claimed address have the same bech32
  string, it is the Base path that returns the \<open>false\<close>.
\<close>

theorem base_mismatch_no_reward_fallback:
  assumes "Address_from_bytes L (Buffer_from_hex address) = Inr checkAddress"
    and "Address_to_bech32 checkAddress = Inr s"
    and "BaseAddress_from_address L addressCose = Some baseAddress"
    and "StakeCredential_to_keyhash (BaseAddress_stake_cred baseAddress) = Some H"
    and "Address_network_id checkAddress = Inr N"
    and "Address_to_bech32
           (BaseAddress_to_address
              (BaseAddress_new L N
                 (StakeCredential_from_keyhash L (PublicKey_hash publicKeyCose))
                 (StakeCredential_from_keyhash L H))) = Inr s'"
    and "s' \<noteq> s"
  shows "snd (verifyAddress L address addressCose publicKeyCose) = Inr False
       \<and> Reached RewardPath \<notin> set (fst (verifyAddress L address addressCose publicKeyCose))
       \<and> (Address_to_bech32 addressCose = Inr s \<longrightarrow>
            verifyAddress L address addressCose publicKeyCose =
              ([Reached AddressCheck, Reached BasePath], Inr False))"
proof -
  have b: "verifyAddress_base L checkAddress addressCose publicKeyCose = ([], Inr False)"
    using assms(2-7)
    by (auto simp: verifyAddress_base_def js_eq_iff js_sel receiver_def instance_arg_def)
  show ?thesis
  proof (cases "Address_to_bech32 addressCose")
    case (Inl e)
    then show ?thesis
      using assms(1,2) by (simp add: verifyAddress_def js_eq_iff js_sel)
  next
    case (Inr s0)
    then show ?thesis
      using b assms(1,2) by (simp add: verifyAddress_def js_eq_iff js_sel)
  qed
qed

theorem base_mismatch_no_reward_fallback_witness:
  "verifyAddress sample_lib ''010f0f0708''
     (sample_address ''addr'' 1 [1, 15, 15, 7, 8]) (sample_PublicKey [10, 11])
     = ([Reached AddressCheck, Reached BasePath], Inr False)
 \<and> Reached RewardPath \<notin> set (fst (verifyAddress sample_lib ''010f0f0708''
     (sample_address ''addr'' 1 [1, 15, 15, 7, 8]) (sample_PublicKey [10, 11])))"
proof -
  let ?a = "sample_address ''addr'' 1 [1, 15, 15, 7, 8]"
  have 1: "Address_from_bytes sample_lib (Buffer_from_hex ''010f0f0708'') = Inr ?a"
    by (simp add: sample_defs)
  have 2: "Address_to_bech32 ?a = Inr ''addr1010f0f0708''"
    by (simp add: sample_defs)
  have 3: "BaseAddress_from_address sample_lib ?a =
             Some \<lparr>BaseAddress_stake_cred = \<lparr>StakeCredential_to_keyhash = Some [7, 8]\<rparr>,
                   BaseAddress_to_address = ?a\<rparr>"
    by (simp add: sample_defs)
  have 4: "StakeCredential_to_keyhash
             (BaseAddress_stake_cred
                \<lparr>BaseAddress_stake_cred = \<lparr>StakeCredential_to_keyhash = Some [7, 8]\<rparr>,
                 BaseAddress_to_address = ?a\<rparr>) = Some [7, 8]"
    by simp
  have 5: "Address_network_id ?a = Inr 1"
    by (simp add: sample_defs)
  have 6: "Address_to_bech32
           (BaseAddress_to_address
              (BaseAddress_new sample_lib 1
                 (StakeCredential_from_keyhash sample_lib (PublicKey_hash (sample_PublicKey [10, 11])))
                 (StakeCredential_from_keyhash sample_lib [7, 8]))) = Inr ''addr1010b0c0708''"
    by (simp add: sample_defs)
  have 7: "''addr1010b0c0708'' \<noteq> ''addr1010f0f0708''"
    by simp
  from base_mismatch_no_reward_fallback [OF 1 2 3 4 5 6 7] 2 show ?thesis
    by simp
qed

text \<open>
  C7. \<open>verifyAddress\<close> never throws: on every input it returns a boolean. When the
  claimed hex does not decode into an address it logs the reason and returns
  \<open>false\<close>. When the embedded address is not a Base address, and the claimed address
  has the bech32 string of no Reward address, it returns \<open>false\<close>.
\<close>

theorem verifyAddress_total:
  "(\<exists>t b. verifyAddress L address addressCose publicKeyCose = (t, Inr b))
 \<and> (\<forall>e. Address_from_bytes L (Buffer_from_hex address) = Inl e \<longrightarrow>
        verifyAddress L address addressCose publicKeyCose =
          ([Reached AddressCheck,
            ConsoleLog (''---> Could not verify address, error: '' @ message e)], Inr False))
 \<and> (BaseAddress_from_address L addressCose = None \<and>
      (\<forall>checkAddress N c.
          Address_from_bytes L (Buffer_from_hex address) = Inr checkAddress \<longrightarrow>
          Address_to_bech32 (RewardAddress_to_address (RewardAddress_new L N c))
            \<noteq> Address_to_bech32 checkAddress) \<longrightarrow>
      snd (verifyAddress L address addressCose publicKeyCose) = Inr False)"
proof (intro conjI allI impI)
  show "\<exists>t b. verifyAddress L address addressCose publicKeyCose = (t, Inr b)"
    using verifyAddress_returns [of L address addressCose publicKeyCose]
    by (metis prod.collapse)
next
  fix e assume "Address_from_bytes L (Buffer_from_hex address) = Inl e"
  then show "verifyAddress L address addressCose publicKeyCose =
          ([Reached AddressCheck,
            ConsoleLog (''---> Could not verify address, error: '' @ message e)], Inr False)"
    by (simp add: verifyAddress_def js_eq_iff js_sel)
next
  assume h: "BaseAddress_from_address L addressCose = None \<and>
      (\<forall>checkAddress N c.
          Address_from_bytes L (Buffer_from_hex address) = Inr checkAddress \<longrightarrow>
          Address_to_bech32 (RewardAddress_to_address (RewardAddress_new L N c))
            \<noteq> Address_to_bech32 checkAddress)"
  have b: "\<And>c. snd (verifyAddress_base L c addressCose publicKeyCose) \<noteq> Inr True"
    using h by (simp add: verifyAddress_base_def js_sel receiver_def)
  have r: "\<And>c. Address_from_bytes L (Buffer_from_hex address) = Inr c \<Longrightarrow>
             snd (verifyAddress_reward L c publicKeyCose) \<noteq> Inr True"
    using h by (auto simp: verifyAddress_reward_def js_sel instance_arg_def split: sum.splits)
  show "snd (verifyAddress L address addressCose publicKeyCose) = Inr False"
    using b r by (auto simp: verifyAddress_def js_sel split: sum.splits option.splits)
qed

theorem verifyAddress_total_witness:
  "verifyAddress sample_lib ''zz''
     (sample_address ''addr'' 1 [1, 11, 12, 7, 8]) (sample_PublicKey [10, 11])
     = ([Reached AddressCheck, ConsoleLog ''---> Could not verify address, error: undefined''],
        Inr False)
 \<and> snd (verifyAddress sample_lib ''610b0c''
     (sample_address ''addr'' 1 [97, 11, 12]) (sample_PublicKey [10, 11])) = Inr False"
proof -
  have 1: "Address_from_bytes sample_lib (Buffer_from_hex ''zz'') =
             Inl (Thrown ''Deserialization failed in Address because: Invalid cbor: not enough bytes'')"
    by (simp add: sample_defs)
  have 2: "BaseAddress_from_address sample_lib (sample_address ''addr'' 1 [97, 11, 12]) = None"
    by (simp add: sample_defs)
  have 3: "\<forall>checkAddress N c.
          Address_from_bytes sample_lib (Buffer_from_hex ''610b0c'') = Inr checkAddress \<longrightarrow>
          Address_to_bech32 (RewardAddress_to_address (RewardAddress_new sample_lib N c))
            \<noteq> Address_to_bech32 checkAddress"
    by (auto simp: sample_defs)
  from verifyAddress_total [of sample_lib "''zz''"
      "sample_address ''addr'' 1 [1, 11, 12, 7, 8]" "sample_PublicKey [10, 11]"] 1
  have a: "verifyAddress sample_lib ''zz''
     (sample_address ''addr'' 1 [1, 11, 12, 7, 8]) (sample_PublicKey [10, 11])
     = ([Reached AddressCheck, ConsoleLog ''---> Could not verify address, error: undefined''],
        Inr False)"
    by simp
  from verifyAddress_total [of sample_lib "''610b0c''"
      "sample_address ''addr'' 1 [97, 11, 12]" "sample_PublicKey [10, 11]"] 2 3
  have b: "snd (verifyAddress sample_lib ''610b0c''
     (sample_address ''addr'' 1 [97, 11, 12]) (sample_PublicKey [10, 11])) = Inr False"
    by blast
  from a b show ?thesis by (rule conjI)
qed

text \<open>
  C8. The class has no kind of error for malformed input, and what a malformed
  argument becomes depends on where it is decoded.
  \<^item> Hex decoding never fails: \<open>Buffer.from\<close> stops at the first pair that is not
    two hex digits and keeps the bytes before it, and \<open>verifySignedMessage\<close> depends
    on its four arguments through the decoded bytes only. A call with malformed hex
    is the call with the truncated bytes.
  \<^item> A failure to decode the envelope, the embedded address or the key material
    leaves \<open>verifySignedMessage\<close> as the exception the decoder threw, unchanged,
    before the address check starts: no verdict is returned.
  \<^item> A claimed address that does not decode is caught inside \<open>verifyAddress\<close>,
    which logs it and returns \<open>false\<close>, so that \<open>verifySignedMessage\<close> throws
    \<open>Error('Address mismatch')\<close>.
  \<^item> A failure to decode the signature of the envelope, or to build its signed
    data, is thrown unchanged too, but only after the address check has run and
    passed: the trace holds the events of the address check, and the signature
    primitive is not reached.
\<close>

theorem decoding_failures_at_the_boundary:
  "(\<forall>h c d r.
        even (length h) \<and> (\<forall>x\<in>set h. unhex x \<noteq> None) \<and>
        (unhex c = None \<or> unhex d = None) \<longrightarrow>
        Buffer_from_hex (h @ c # d # r) = Buffer_from_hex h)
 \<and> (\<forall>address' payload' coseSign1Hex' coseKeyHex'.
        Buffer_from_hex address' = Buffer_from_hex address \<and>
        Buffer_from_hex payload' = Buffer_from_hex payload \<and>
        Buffer_from_hex coseSign1Hex' = Buffer_from_hex coseSign1Hex \<and>
        Buffer_from_hex coseKeyHex' = Buffer_from_hex coseKeyHex \<longrightarrow>
        verifySignedMessage L address' payload' coseSign1Hex' coseKeyHex' =
          verifySignedMessage L address payload coseSign1Hex coseKeyHex)
 \<and> (\<forall>e. COSESign1_from_bytes L (Buffer_from_hex coseSign1Hex) = Inl e \<longrightarrow>
        verifySignedMessage L address payload coseSign1Hex coseKeyHex = ([], Inl e))
 \<and> (\<forall>coseSign1 e.
        COSESign1_from_bytes L (Buffer_from_hex coseSign1Hex) = Inr coseSign1 \<and>
        verifyPayload payload (COSESign1_payload coseSign1) = ([], Inr 0) \<and>
        get_addressCose L coseSign1 = ([], Inl e) \<longrightarrow>
        verifySignedMessage L address payload coseSign1Hex coseKeyHex = ([], Inl e))
 \<and> (\<forall>coseSign1 addressCose e.
        COSESign1_from_bytes L (Buffer_from_hex coseSign1Hex) = Inr coseSign1 \<and>
        verifyPayload payload (COSESign1_payload coseSign1) = ([], Inr 0) \<and>
        get_addressCose L coseSign1 = ([], Inr addressCose) \<and>
        get_publicKeyCose L coseKeyHex = ([], Inl e) \<longrightarrow>
        verifySignedMessage L address payload coseSign1Hex coseKeyHex = ([], Inl e))
 \<and> (\<forall>coseSign1 addressCose publicKeyCose e.
        COSESign1_from_bytes L (Buffer_from_hex coseSign1Hex) = Inr coseSign1 \<and>
        verifyPayload payload (COSESign1_payload coseSign1) = ([], Inr 0) \<and>
        get_addressCose L coseSign1 = ([], Inr addressCose) \<and>
        get_publicKeyCose L coseKeyHex = ([], Inr publicKeyCose) \<and>
        Address_from_bytes L (Buffer_from_hex address) = Inl e \<longrightarrow>
        verifySignedMessage L address payload coseSign1Hex coseKeyHex =
          ([Reached AddressCheck,
            ConsoleLog (''---> Could not verify address, error: '' @ message e)],
           Inl (Error ''Address mismatch'')))
 \<and> (\<forall>coseSign1 addressCose publicKeyCose t e.
        COSESign1_from_bytes L (Buffer_from_hex coseSign1Hex) = Inr coseSign1 \<and>
        verifyPayload payload (COSESign1_payload coseSign1) = ([], Inr 0) \<and>
        get_addressCose L coseSign1 = ([], Inr addressCose) \<and>
        get_publicKeyCose L coseKeyHex = ([], Inr publicKeyCose) \<and>
        verifyAddress L address addressCose publicKeyCose = (t, Inr True) \<and>
        (Ed25519Signature_from_bytes L (COSESign1_signature coseSign1) = Inl e \<or>
         (\<exists>signature.
            Ed25519Signature_from_bytes L (COSESign1_signature coseSign1) = Inr signature \<and>
            COSESign1_signed_data coseSign1 = Inl e)) \<longrightarrow>
        verifySignedMessage L address payload coseSign1Hex coseKeyHex = (t, Inl e) \<and>
        Reached AddressCheck \<in> set t \<and> Reached SignatureCheck \<notin> set t)"
proof (intro conjI allI; intro impI)
  fix h c d r
  assume "even (length h) \<and> (\<forall>x\<in>set h. unhex x \<noteq> None) \<and>
        (unhex c = None \<or> unhex d = None)"
  then show "Buffer_from_hex (h @ c # d # r) = Buffer_from_hex h"
    using Buffer_from_hex_append [of h "c # d # r"] Buffer_from_hex_invalid [of c d r]
    by simp
next
  fix address' payload' coseSign1Hex' coseKeyHex'
  assume h: "Buffer_from_hex address' = Buffer_from_hex address \<and>
        Buffer_from_hex payload' = Buffer_from_hex payload \<and>
        Buffer_from_hex coseSign1Hex' = Buffer_from_hex coseSign1Hex \<and>
        Buffer_from_hex coseKeyHex' = Buffer_from_hex coseKeyHex"
  have 1: "verifyPayload payload' = verifyPayload payload"
    using h by (intro ext) (simp add: verifyPayload_def)
  have 2: "get_publicKeyCose L coseKeyHex' = get_publicKeyCose L coseKeyHex"
    using h by (simp add: get_publicKeyCose_def)
  have 3: "verifyAddress L address' = verifyAddress L address"
    using h by (intro ext) (simp add: verifyAddress_def)
  show "verifySignedMessage L address' payload' coseSign1Hex' coseKeyHex' =
          verifySignedMessage L address payload coseSign1Hex coseKeyHex"
    unfolding verifySignedMessage_def 1 2 3 using h by simp
next
  fix e assume "COSESign1_from_bytes L (Buffer_from_hex coseSign1Hex) = Inl e"
  then show "verifySignedMessage L address payload coseSign1Hex coseKeyHex = ([], Inl e)"
    by (simp add: verifySignedMessage_def js_eq_iff js_sel)
next
  fix coseSign1 e
  assume "COSESign1_from_bytes L (Buffer_from_hex coseSign1Hex) = Inr coseSign1 \<and>
        verifyPayload payload (COSESign1_payload coseSign1) = ([], Inr 0) \<and>
        get_addressCose L coseSign1 = ([], Inl e)"
  then show "verifySignedMessage L address payload coseSign1Hex coseKeyHex = ([], Inl e)"
    by (simp add: verifySignedMessage_def js_eq_iff js_sel)
next
  fix coseSign1 addressCose e
  assume "COSESign1_from_bytes L (Buffer_from_hex coseSign1Hex) = Inr coseSign1 \<and>
        verifyPayload payload (COSESign1_payload coseSign1) = ([], Inr 0) \<and>
        get_addressCose L coseSign1 = ([], Inr addressCose) \<and>
        get_publicKeyCose L coseKeyHex = ([], Inl e)"
  then show "verifySignedMessage L address payload coseSign1Hex coseKeyHex = ([], Inl e)"
    by (simp add: verifySignedMessage_def js_eq_iff js_sel)
next
  fix coseSign1 addressCose publicKeyCose e
  assume h: "COSESign1_from_bytes L (Buffer_from_hex coseSign1Hex) = Inr coseSign1 \<and>
        verifyPayload payload (COSESign1_payload coseSign1) = ([], Inr 0) \<and>
        get_addressCose L coseSign1 = ([], Inr addressCose) \<and>
        get_publicKeyCose L coseKeyHex = ([], Inr publicKeyCose) \<and>
        Address_from_bytes L (Buffer_from_hex address) = Inl e"
  then have "verifyAddress L address addressCose publicKeyCose =
          ([Reached AddressCheck,
            ConsoleLog (''---> Could not verify address, error: '' @ message e)], Inr False)"
    by (simp add: verifyAddress_def js_eq_iff js_sel)
  with h show "verifySignedMessage L address payload coseSign1Hex coseKeyHex =
          ([Reached AddressCheck,
            ConsoleLog (''---> Could not verify address, error: '' @ message e)],
           Inl (Error ''Address mismatch''))"
    by (simp add: verifySignedMessage_def js_eq_iff js_sel)
next
  fix coseSign1 addressCose publicKeyCose t e
  assume h: "COSESign1_from_bytes L (Buffer_from_hex coseSign1Hex) = Inr coseSign1 \<and>
        verifyPayload payload (COSESign1_payload coseSign1) = ([], Inr 0) \<and>
        get_addressCose L coseSign1 = ([], Inr addressCose) \<and>
        get_publicKeyCose L coseKeyHex = ([], Inr publicKeyCose) \<and>
        verifyAddress L address addressCose publicKeyCose = (t, Inr True) \<and>
        (Ed25519Signature_from_bytes L (COSESign1_signature coseSign1) = Inl e \<or>
         (\<exists>signature.
            Ed25519Signature_from_bytes L (COSESign1_signature coseSign1) = Inr signature \<and>
            COSESign1_signed_data coseSign1 = Inl e))"
  have t: "Reached AddressCheck \<in> set t \<and> Reached SignatureCheck \<notin> set t"
  proof -
    from h have "fst (verifyAddress L address addressCose publicKeyCose) = t"
      by simp
    moreover have "Reached AddressCheck
                     \<in> set (fst (verifyAddress L address addressCose publicKeyCose))"
      by (simp add: verifyAddress_def js_sel)
    ultimately show ?thesis
      using verifyAddress_no_SignatureCheck [of L address addressCose publicKeyCose]
      by simp
  qed
  from h have "verifySignedMessage L address payload coseSign1Hex coseKeyHex = (t, Inl e)"
    by (auto simp: verifySignedMessage_def js_eq_iff js_sel)
  with t show "verifySignedMessage L address payload coseSign1Hex coseKeyHex = (t, Inl e) \<and>
        Reached AddressCheck \<in> set t \<and> Reached SignatureCheck \<notin> set t"
    by simp
qed

theorem decoding_failures_at_the_boundary_witness:
  "Buffer_from_hex ''010b0c0708zz'' = Buffer_from_hex ''010b0c0708''
 \<and> verifySignedMessage sample_lib ''010b0c0708zz'' ''6e6f6e63652d313233zz''
       ''096e6f6e63652d31323305010b0c07080a0bfdzz'' ''0a0bzz''
     = ([Reached AddressCheck, Reached BasePath, Reached SignatureCheck], Inr True)
 \<and> verifySignedMessage sample_lib ''010b0c0708'' ''6e6f6e63652d313233'' [] ''0a0b''
     = ([], Inl (Thrown ''Deserialization failed in COSESign1''))
 \<and> verifySignedMessage sample_lib ''ff'' ''6e6f6e63652d313233''
       ''096e6f6e63652d31323301ff0a0bfd'' ''0a0b''
     = ([], Inl (Thrown ''Deserialization failed in Address because: Bad address''))
 \<and> verifySignedMessage sample_lib ''010b0c0708'' ''6e6f6e63652d313233''
       ''096e6f6e63652d31323305010b0c07080a0bfd'' ''0a''
     = ([], Inl (Thrown ''Invalid Public Key size''))
 \<and> verifySignedMessage sample_lib ''01'' ''6e6f6e63652d313233''
       ''096e6f6e63652d31323305010b0c07080a0bfd'' ''0a0b''
     = ([Reached AddressCheck, ConsoleLog ''---> Could not verify address, error: undefined''],
        Inl (Error ''Address mismatch''))
 \<and> verifySignedMessage sample_lib ''010b0c0708'' ''6e6f6e63652d313233''
       ''096e6f6e63652d31323305010b0c07080a0b'' ''0a0b''
     = ([Reached AddressCheck, Reached BasePath], Inl (Thrown ''Invalid Signature size''))"
proof -
  let ?A = "''010b0c0708''" and ?P = "''6e6f6e63652d313233''"
    and ?E = "''096e6f6e63652d31323305010b0c07080a0bfd''" and ?K = "''0a0b''"
  note d = decoding_failures_at_the_boundary
  have 1: "COSESign1_from_bytes sample_lib (Buffer_from_hex []) =
             Inl (Thrown ''Deserialization failed in COSESign1'')"
    by (simp add: sample_defs)
  obtain c where c:
    "COSESign1_from_bytes sample_lib (Buffer_from_hex ''096e6f6e63652d31323301ff0a0bfd'') = Inr c"
    "verifyPayload ?P (COSESign1_payload c) = ([], Inr 0)"
    "get_addressCose sample_lib c =
       ([], Inl (Thrown ''Deserialization failed in Address because: Bad address''))"
    by (simp add: model_defs js_defs sample_defs)
  obtain c' where c':
    "COSESign1_from_bytes sample_lib (Buffer_from_hex ?E) = Inr c'"
    "verifyPayload ?P (COSESign1_payload c') = ([], Inr 0)"
    "get_addressCose sample_lib c' = ([], Inr (sample_address ''addr'' 1 [1, 11, 12, 7, 8]))"
    by (simp add: model_defs js_defs sample_defs)
  obtain c'' where c'':
    "COSESign1_from_bytes sample_lib (Buffer_from_hex ''096e6f6e63652d31323305010b0c07080a0b'')
       = Inr c''"
    "verifyPayload ?P (COSESign1_payload c'') = ([], Inr 0)"
    "get_addressCose sample_lib c'' = ([], Inr (sample_address ''addr'' 1 [1, 11, 12, 7, 8]))"
    "Ed25519Signature_from_bytes sample_lib (COSESign1_signature c'')
       = Inl (Thrown ''Invalid Signature size'')"
    by (simp add: model_defs js_defs sample_defs)
  have k: "get_publicKeyCose sample_lib ''0a'' = ([], Inl (Thrown ''Invalid Public Key size''))"
    by (simp add: model_defs js_defs sample_defs)
  have k': "get_publicKeyCose sample_lib ?K = ([], Inr (sample_PublicKey [10, 11]))"
    by (simp add: model_defs js_defs sample_defs)
  have a: "Address_from_bytes sample_lib (Buffer_from_hex ''01'') =
     Inl (Thrown ''Deserialization failed in Address because: Bad address'')"
    by (simp add: sample_defs)
  have v: "verifyAddress sample_lib ?A (sample_address ''addr'' 1 [1, 11, 12, 7, 8])
             (sample_PublicKey [10, 11]) = ([Reached AddressCheck, Reached BasePath], Inr True)"
    by (simp add: model_defs js_defs sample_defs)
  have z: "even (length ?A) \<and> (\<forall>x\<in>set ?A. unhex x \<noteq> None) \<and>
             (unhex CHR ''z'' = None \<or> unhex CHR ''z'' = None)"
    by (simp add: unhex_def)
  have zz: "Buffer_from_hex ''010b0c0708zz'' = Buffer_from_hex ?A \<and>
            Buffer_from_hex ''6e6f6e63652d313233zz'' = Buffer_from_hex ?P \<and>
            Buffer_from_hex ''096e6f6e63652d31323305010b0c07080a0bfdzz'' = Buffer_from_hex ?E \<and>
            Buffer_from_hex ''0a0bzz'' = Buffer_from_hex ?K"
    by (simp add: unhex_def)
  have plain: "verifySignedMessage sample_lib ?A ?P ?E ?K
     = ([Reached AddressCheck, Reached BasePath, Reached SignatureCheck], Inr True)"
    by (simp add: model_defs js_defs sample_defs)
  from d [THEN conjunct1, rule_format, OF z, of "[]"]
  have r0: "Buffer_from_hex ''010b0c0708zz'' = Buffer_from_hex ?A"
    by simp
  from d [where L = sample_lib and address = ?A and payload = ?P and coseSign1Hex = ?E and coseKeyHex = ?K, THEN conjunct2, THEN conjunct1, rule_format, OF zz] plain
  have r0': "verifySignedMessage sample_lib ''010b0c0708zz'' ''6e6f6e63652d313233zz''
       ''096e6f6e63652d31323305010b0c07080a0bfdzz'' ''0a0bzz''
     = ([Reached AddressCheck, Reached BasePath, Reached SignatureCheck], Inr True)"
    by simp
  from d [where L = sample_lib and coseSign1Hex = "[]" and address = ?A and payload = ?P and coseKeyHex = ?K] 1
  have r1: "verifySignedMessage sample_lib ?A ?P [] ?K
     = ([], Inl (Thrown ''Deserialization failed in COSESign1''))"
    by blast
  from d [where L = sample_lib and coseSign1Hex = "''096e6f6e63652d31323301ff0a0bfd''" and address = "''ff''" and payload = ?P and coseKeyHex = ?K] c
  have r2: "verifySignedMessage sample_lib ''ff'' ?P ''096e6f6e63652d31323301ff0a0bfd'' ?K
     = ([], Inl (Thrown ''Deserialization failed in Address because: Bad address''))"
    by blast
  from d [where L = sample_lib and coseSign1Hex = ?E and address = ?A and payload = ?P and coseKeyHex = "''0a''"] c' k
  have r3: "verifySignedMessage sample_lib ?A ?P ?E ''0a''
     = ([], Inl (Thrown ''Invalid Public Key size''))"
    by blast
  from d [where L = sample_lib and coseSign1Hex = ?E and address = "''01''" and payload = ?P and coseKeyHex = ?K] c' k' a
  have r4: "verifySignedMessage sample_lib ''01'' ?P ?E ?K
     = ([Reached AddressCheck, ConsoleLog (''---> Could not verify address, error: '' @
           message (Thrown ''Deserialization failed in Address because: Bad address''))],
        Inl (Error ''Address mismatch''))"
    by blast
  from d [where L = sample_lib and coseSign1Hex = "''096e6f6e63652d31323305010b0c07080a0b''" and address = ?A and payload = ?P and coseKeyHex = ?K] c'' k' v
  have r5: "verifySignedMessage sample_lib ?A ?P ''096e6f6e63652d31323305010b0c07080a0b'' ?K
     = ([Reached AddressCheck, Reached BasePath], Inl (Thrown ''Invalid Signature size''))"
    by blast
  from r0 r0' r1 r2 r3 r4 r5 show ?thesis by simp
qed

text \<open>
  So a malformed claimed address is reported as an address mismatch: the one-byte
  claimed address \<open>01\<close> is rejected by the decoder, and the caller gets the same
  error as for the well-formed address \<open>010b0c0709\<close>, which differs from the embedded
  one. And malformed hex is not reported at all: with \<open>zz\<close> after each of the four
  arguments of a valid call the result is still \<open>true\<close>.
\<close>

theorem malformed_address_reported_as_mismatch:
  "Address_from_bytes sample_lib (Buffer_from_hex ''01'') =
     Inl (Thrown ''Deserialization failed in Address because: Bad address'')
 \<and> verifySignedMessage sample_lib ''01'' ''6e6f6e63652d313233''
       ''096e6f6e63652d31323305010b0c07080a0bfd'' ''0a0b''
     = ([Reached AddressCheck, ConsoleLog ''---> Could not verify address, error: undefined''],
        Inl (Error ''Address mismatch''))
 \<and> snd (verifySignedMessage sample_lib ''010b0c0709'' ''6e6f6e63652d313233''
       ''096e6f6e63652d31323305010b0c07080a0bfd'' ''0a0b'')
     = Inl (Error ''Address mismatch'')
 \<and> snd (verifySignedMessage sample_lib ''010b0c0708zz'' ''6e6f6e63652d313233zz''
       ''096e6f6e63652d31323305010b0c07080a0bfdzz'' ''0a0bzz'')
     = Inr True"
  by (simp add: model_defs js_defs sample_defs)

text \<open>
  C9. When the embedded address is a Base address whose stake credential is not a
  key hash, \<open>verifyAddress\<close> does not return from the Base path: the exception is
  logged, the Reward path is entered, and the result is what the Reward path gives
  (\<open>false\<close> when it throws in its turn).
\<close>

theorem base_without_keyhash_falls_through:
  assumes "Address_from_bytes L (Buffer_from_hex address) = Inr checkAddress"
    and "Address_to_bech32 addressCose = Inr s"
    and "Address_to_bech32 checkAddress = Inr s"
    and "BaseAddress_from_address L addressCose = Some baseAddress"
    and "StakeCredential_to_keyhash (BaseAddress_stake_cred baseAddress) = None"
  shows "\<exists>e. verifyAddress L address addressCose publicKeyCose =
           ([Reached AddressCheck, Reached BasePath,
             ConsoleLog (''---> The address is not base address, error: '' @ message e),
             Reached RewardPath]
            @ (case snd (verifyAddress_reward L checkAddress publicKeyCose) of
                 Inl e' \<Rightarrow>
                   [ConsoleLog (''---> The address is not reward address, error: '' @ message e')]
               | Inr b \<Rightarrow> []),
            Inr (case snd (verifyAddress_reward L checkAddress publicKeyCose) of
                   Inl e' \<Rightarrow> False
                 | Inr b \<Rightarrow> b))"
proof -
  have "\<exists>e. verifyAddress_base L checkAddress addressCose publicKeyCose = ([], Inl e)"
  proof (cases "Address_network_id checkAddress")
    case (Inl e)
    then show ?thesis
      using assms(4) by (simp add: verifyAddress_base_def js_eq_iff js_sel receiver_def)
  next
    case (Inr n)
    then show ?thesis
      using assms(4,5)
      by (simp add: verifyAddress_base_def js_eq_iff js_sel receiver_def instance_arg_def)
  qed
  then obtain e where b: "verifyAddress_base L checkAddress addressCose publicKeyCose = ([], Inl e)"
    by blast
  have main: "verifyAddress L address addressCose publicKeyCose =
           ([Reached AddressCheck, Reached BasePath,
             ConsoleLog (''---> The address is not base address, error: '' @ message e),
             Reached RewardPath]
            @ (case snd (verifyAddress_reward L checkAddress publicKeyCose) of
                 Inl e' \<Rightarrow>
                   [ConsoleLog (''---> The address is not reward address, error: '' @ message e')]
               | Inr b \<Rightarrow> []),
            Inr (case snd (verifyAddress_reward L checkAddress publicKeyCose) of
                   Inl e' \<Rightarrow> False
                 | Inr b \<Rightarrow> b))"
  proof (cases "snd (verifyAddress_reward L checkAddress publicKeyCose)")
    case (Inl e')
    then show ?thesis
      using b assms(1-3) by (simp add: verifyAddress_def js_eq_iff js_sel)
  next
    case (Inr v)
    then show ?thesis
      using b assms(1-3) by (simp add: verifyAddress_def js_eq_iff js_sel)
  qed
  show ?thesis
    by (rule exI [of _ e]) (fact main)
qed

theorem base_without_keyhash_falls_through_witness:
  "\<exists>e. verifyAddress sample_lib ''210b0c0708''
          (sample_address ''addr'' 1 [33, 11, 12, 7, 8]) (sample_PublicKey [10, 11]) =
           ([Reached AddressCheck, Reached BasePath,
             ConsoleLog (''---> The address is not base address, error: '' @ message e),
             Reached RewardPath], Inr False)"
proof -
  let ?a = "sample_address ''addr'' 1 [33, 11, 12, 7, 8]"
  have 1: "Address_from_bytes sample_lib (Buffer_from_hex ''210b0c0708'') = Inr ?a"
    by (simp add: sample_defs)
  have 2: "Address_to_bech32 ?a = Inr ''addr1210b0c0708''"
    by (simp add: sample_defs)
  have 3: "BaseAddress_from_address sample_lib ?a =
             Some \<lparr>BaseAddress_stake_cred = \<lparr>StakeCredential_to_keyhash = None\<rparr>,
                   BaseAddress_to_address = ?a\<rparr>"
    by (simp add: sample_defs)
  have 4: "StakeCredential_to_keyhash
             (BaseAddress_stake_cred
                \<lparr>BaseAddress_stake_cred = \<lparr>StakeCredential_to_keyhash = None\<rparr>,
                 BaseAddress_to_address = ?a\<rparr>) = None"
    by simp
  have 5: "verifyAddress_reward sample_lib ?a (sample_PublicKey [10, 11]) = ([], Inr False)"
    by (simp add: verifyAddress_reward_def js_defs sample_defs)
  from base_without_keyhash_falls_through [OF 1 2 2 3 4, of "sample_PublicKey [10, 11]"]
  obtain e where "verifyAddress sample_lib ''210b0c0708'' ?a (sample_PublicKey [10, 11]) =
           ([Reached AddressCheck, Reached BasePath,
             ConsoleLog (''---> The address is not base address, error: '' @ message e),
             Reached RewardPath], Inr False)"
    unfolding 5 by auto
  then show ?thesis by (rule exI [of _ e])
qed

text \<open>
  C10. When the envelope decodes and has no payload, \<open>verifySignedMessage\<close> throws
  the \<open>TypeError\<close> of \<open>Buffer.from(undefined)\<close>: it does not return \<open>false\<close>, and
  the error is neither \<open>Error('Payload mismatch')\<close> nor \<open>Error('Address mismatch')\<close>.
\<close>

theorem absent_payload_TypeError:
  assumes "COSESign1_from_bytes L (Buffer_from_hex coseSign1Hex) = Inr coseSign1"
    and "COSESign1_payload coseSign1 = None"
  shows "(\<exists>m. verifySignedMessage L address payload coseSign1Hex coseKeyHex = ([], Inl (TypeError m)))
       \<and> snd (verifySignedMessage L address payload coseSign1Hex coseKeyHex) \<noteq> Inr False
       \<and> snd (verifySignedMessage L address payload coseSign1Hex coseKeyHex)
             \<noteq> Inl (Error ''Payload mismatch'')
       \<and> snd (verifySignedMessage L address payload coseSign1Hex coseKeyHex)
             \<noteq> Inl (Error ''Address mismatch'')"
  using assms verifyPayload_None [of payload]
  by (auto simp: verifySignedMessage_def js_eq_iff js_sel)

theorem absent_payload_TypeError_witness:
  "\<exists>m. verifySignedMessage sample_lib ''010b0c0708'' ''6e6f6e63652d313233''
         ''f605010b0c07080a0bfd'' ''0a0b'' = ([], Inl (TypeError m))"
proof -
  obtain c where c:
    "COSESign1_from_bytes sample_lib (Buffer_from_hex ''f605010b0c07080a0bfd'') = Inr c"
    "COSESign1_payload c = None"
    by (simp add: sample_defs)
  from absent_payload_TypeError [OF c] show ?thesis by (rule conjunct1)
qed

end
